theory Spec2Isabelle
  imports Main "HOL-Library.AList" "HOL-Library.Sublist"
begin

section \<open>Values, callables and the documentation-comment collaborator\<close>

text \<open>
  The module under study, \<^verbatim>\<open>cli_script_commands.py\<close>, registers functions as
  sub-commands of an \<^verbatim>\<open>argparse\<close> parser, parses an argument vector and calls the
  selected function with keyword arguments. A registered function is known to the module
  by its \<^verbatim>\<open>__name__\<close> and its \<^verbatim>\<open>__doc__\<close> only.
\<close>

record callable =
  fn_name :: string
  fn_doc :: "string option"

text \<open>
  Python values that can reach a namespace attribute or a keyword argument. \<open>VOther\<close> is
  an object of any other type (a float, a tuple, ...), with its printed form and its
  truth value.
\<close>

datatype pyval =
    VNone
  | VBool bool
  | VInt int
  | VStr string
  | VList "pyval list"
  | VFun callable
  | VOther string bool

text \<open>
  What \<^verbatim>\<open>docstring_parser.parse\<close> hands back: a short and a long description and the
  documented parameters, each with \<^verbatim>\<open>arg_name\<close>, \<^verbatim>\<open>type_name\<close>, \<^verbatim>\<open>is_optional\<close>
  and \<^verbatim>\<open>description\<close>.
\<close>

record doc_param =
  arg_name :: string
  type_name :: "string option"
  is_optional :: bool
  description :: "string option"

record docstring =
  short_description :: "string option"
  long_description :: "string option"
  params :: "doc_param list"

text \<open>
  An attribute of the \<^verbatim>\<open>builtins\<close> module: the types \<^verbatim>\<open>bool\<close>, \<^verbatim>\<open>list\<close> and
  \<^verbatim>\<open>str\<close>, any other callable (\<^verbatim>\<open>int\<close>, \<^verbatim>\<open>float\<close>, \<^verbatim>\<open>len\<close>, ...), named, or an
  attribute that cannot be called (\<^verbatim>\<open>True\<close>, \<^verbatim>\<open>__name__\<close>, ...).
\<close>

datatype pyobj = BoolT | ListT | StrT | OtherCallable string | NonCallable string

text \<open>
  Calling a callable on one command-line token: it returns a value, raises
  \<^verbatim>\<open>TypeError\<close>, \<^verbatim>\<open>ValueError\<close> or \<^verbatim>\<open>ArgumentTypeError\<close> (which argparse turns into a
  usage error), or raises something else (which argparse lets through).
\<close>

datatype conv = Returns pyval | Rejects | Raises

text \<open>
  The ways a call can end without returning. \<open>UsageExit\<close> is argparse's
  \<^verbatim>\<open>parser.error\<close>: usage and message on standard error, then \<^verbatim>\<open>SystemExit(2)\<close>.
  \<open>HelpExit\<close> is the help action: the help text on standard output, then
  \<^verbatim>\<open>SystemExit(0)\<close>.
\<close>

datatype exc =
    UsageExit
  | HelpExit
  | NoArgumentsPassed
  | ParseError
  | AttributeError
  | TypeError
  | ValueError
  | IndexError
  | ArgumentError
  | OtherError

text \<open>
  The Python environment the module runs in: the documentation-comment parser, the
  attributes of \<^verbatim>\<open>builtins\<close> other than \<^verbatim>\<open>bool\<close>, \<^verbatim>\<open>list\<close> and \<^verbatim>\<open>str\<close>, and the
  call of such a builtin on a token. None of the three is code of the module, so they
  are parameters of the model.
\<close>

record pyenv =
  parse_doc :: "string option \<Rightarrow> exc + docstring"
  other_builtins :: "string \<Rightarrow> pyobj option"
  call_other :: "string \<Rightarrow> string \<Rightarrow> conv"

section \<open>The argparse fragment the module drives\<close>

subsection \<open>Argument patterns and their matching\<close>

text \<open>
  argparse abstracts the argument vector to a string over \<^verbatim>\<open>A\<close> (argument), \<^verbatim>\<open>O\<close>
  (option) and \<^verbatim>\<open>-\<close> (the token \<^verbatim>\<open>--\<close>) and matches the regular expression of each
  action's \<^verbatim>\<open>nargs\<close> against it with \<^verbatim>\<open>re.match\<close>.
\<close>

datatype pch = PA | PO | PD

datatype quant = One | Opt | Star

type_synonym item = "pch list \<times> quant"

text \<open>
  \<^verbatim>\<open>re.match\<close> on a concatenation of groups, each a sequence of items: greedy, backtracking,
  anchored at the start only. The result is the length of each group.
\<close>

fun rx :: "item list list \<Rightarrow> nat \<Rightarrow> pch list \<Rightarrow> nat list option" where
  "rx [] acc inp = Some []"
| "rx ([] # gs) acc inp = map_option (Cons acc) (rx gs 0 inp)"
| "rx (((cs, One) # is) # gs) acc [] = None"
| "rx (((cs, One) # is) # gs) acc (c # rest) =
     (if c \<in> set cs then rx (is # gs) (Suc acc) rest else None)"
| "rx (((cs, Opt) # is) # gs) acc [] = rx (is # gs) acc []"
| "rx (((cs, Opt) # is) # gs) acc (c # rest) =
     (if c \<in> set cs
      then (case rx (is # gs) (Suc acc) rest of
              Some r \<Rightarrow> Some r
            | None \<Rightarrow> rx (is # gs) acc (c # rest))
      else rx (is # gs) acc (c # rest))"
| "rx (((cs, Star) # is) # gs) acc [] = rx (is # gs) acc []"
| "rx (((cs, Star) # is) # gs) acc (c # rest) =
     (if c \<in> set cs
      then (case rx (((cs, Star) # is) # gs) (Suc acc) rest of
              Some r \<Rightarrow> Some r
            | None \<Rightarrow> rx (is # gs) acc (c # rest))
      else rx (is # gs) acc (c # rest))"

datatype nargs = N0 | NOpt | NPlus | NParser

datatype akind = AHelp | AStoreConst pyval | AStore | ASubParsers

text \<open>
  An \<^verbatim>\<open>argparse.Action\<close>. \<open>dest = None\<close> and \<open>adefault = None\<close> stand for
  \<^verbatim>\<open>argparse.SUPPRESS\<close>; \<open>atype = None\<close> is \<^verbatim>\<open>type=None\<close> (the identity).
\<close>

record action =
  option_strings :: "string list"
  dest :: "string option"
  nargs :: nargs
  akind :: akind
  atype :: "pyobj option"
  adefault :: "pyval option"
  required :: bool
  choices :: "string list option"

text \<open>\<^verbatim>\<open>_get_nargs_pattern\<close>, for the four \<^verbatim>\<open>nargs\<close> the module and its parser use.\<close>

definition nargs_items :: "nargs \<Rightarrow> item list" where
  "nargs_items n = (case n of
       N0 \<Rightarrow> [([PD], Star), ([PD], Star)]
     | NOpt \<Rightarrow> [([PD], Star), ([PA], Opt), ([PD], Star)]
     | NPlus \<Rightarrow> [([PD], Star), ([PA], One), ([PA, PD], Star)]
     | NParser \<Rightarrow> [([PD], Star), ([PA], One), ([PD, PA, PO], Star)])"

text \<open>
  For an action with option strings the source deletes every \<^verbatim>\<open>-*\<close> and then every
  \<^verbatim>\<open>-\<close> from the pattern text.
\<close>

definition strip_dashes :: "item list \<Rightarrow> item list" where
  "strip_dashes its =
     map (\<lambda>(cs, q). (filter (\<lambda>c. c \<noteq> PD) cs, q))
       (filter (\<lambda>(cs, q). \<not> (cs = [PD] \<and> q = Star)) its)"

definition get_nargs_pattern :: "action \<Rightarrow> item list" where
  "get_nargs_pattern a =
     (if option_strings a \<noteq> [] then strip_dashes (nargs_items (nargs a))
      else nargs_items (nargs a))"

subsection \<open>Telling options from arguments\<close>

type_synonym namespace = "(string \<times> pyval) list"

text \<open>
  A parser, as far as parsing goes: its actions in the order they were added (an action
  is identified by its position, as the source identifies it by object identity) and
  the defaults given with \<^verbatim>\<open>set_defaults\<close>.
\<close>

record parser =
  actions :: "action list"
  defaults :: "(string \<times> pyval) list"

text \<open>\<^verbatim>\<open>_option_string_actions\<close>: every option string with the action it belongs to.\<close>

definition option_string_actions :: "action list \<Rightarrow> (string \<times> nat) list" where
  "option_string_actions acts =
     concat (map (\<lambda>(i, a). map (\<lambda>s. (s, i)) (option_strings a)) (enumerate 0 acts))"

definition is_digit :: "char \<Rightarrow> bool" where
  "is_digit c = (c \<in> set ''0123456789'')"

text \<open>
  The source's \<^verbatim>\<open>_negative_number_matcher\<close>, \<^verbatim>\<open>^-\d+$|^-\d*\.\d+$\<close>, on ASCII digits;
  \<^verbatim>\<open>$\<close> also matches before one final newline.
\<close>

definition neg_core :: "string \<Rightarrow> bool" where
  "neg_core s = (case s of
       [] \<Rightarrow> False
     | c # r \<Rightarrow> c = CHR ''-'' \<and>
         ((r \<noteq> [] \<and> list_all is_digit r) \<or>
          (let r2 = dropWhile is_digit r
           in case r2 of
                [] \<Rightarrow> False
              | d # r3 \<Rightarrow> d = CHR ''.'' \<and> r3 \<noteq> [] \<and> list_all is_digit r3)))"

definition negative_number :: "string \<Rightarrow> bool" where
  "negative_number s =
     (neg_core s \<or> (s \<noteq> [] \<and> last s = CHR 0x0A \<and> neg_core (butlast s)))"

definition has_negative_number_optionals :: "action list \<Rightarrow> bool" where
  "has_negative_number_optionals acts =
     list_ex negative_number (map fst (option_string_actions acts))"

definition startswith :: "string \<Rightarrow> string \<Rightarrow> bool" where
  "startswith s p = (take (length p) s = p)"

text \<open>\<^verbatim>\<open>s.partition('=')\<close>: the part before the first \<^verbatim>\<open>=\<close> and, if there is one, the rest.\<close>

definition partition_eq :: "string \<Rightarrow> string \<times> string option" where
  "partition_eq s =
     (takeWhile (\<lambda>c. c \<noteq> CHR ''='') s,
      if CHR ''='' \<in> set s then Some (tl (dropWhile (\<lambda>c. c \<noteq> CHR ''='') s)) else None)"

text \<open>
  An option tuple of the source: the action (or none), the option string, the separator
  and the explicit argument.
\<close>

type_synonym opt_tuple = "nat option \<times> string \<times> string option \<times> string option"

text \<open>
  \<^verbatim>\<open>_get_option_tuples\<close> (with \<^verbatim>\<open>allow_abbrev\<close> on, the default the module keeps): every
  option string the token abbreviates. It is called on tokens of two characters or more
  that start with \<^verbatim>\<open>-\<close>.
\<close>

definition get_option_tuples :: "(string \<times> nat) list \<Rightarrow> string \<Rightarrow> opt_tuple list" where
  "get_option_tuples osa s =
     (if take 2 s = ''--''
      then (let (pre, ex) = partition_eq s;
                sep = (if ex = None then None else Some ''='')
            in map (\<lambda>(os, i). (Some i, os, sep, ex))
                 (filter (\<lambda>(os, i). startswith os pre) osa))
      else concat (map (\<lambda>(os, i).
             if os = take 2 s then [(Some i, os, Some [], Some (drop 2 s))]
             else if startswith os s then [(Some i, os, None, None)]
             else []) osa))"

text \<open>
  \<^verbatim>\<open>_parse_optional\<close>: \<open>Inr None\<close> for a token meant as an argument, \<open>Inr (Some t)\<close> for an
  option, and the usage error of an ambiguous abbreviation.
\<close>

definition parse_optional ::
  "(string \<times> nat) list \<Rightarrow> bool \<Rightarrow> string \<Rightarrow> exc + opt_tuple option" where
  "parse_optional osa hasneg s =
     (if s = [] then Inr None
      else if hd s \<noteq> CHR ''-'' then Inr None
      else case map_of osa s of
        Some i \<Rightarrow> Inr (Some (Some i, s, None, None))
      | None \<Rightarrow>
        if length s = 1 then Inr None
        else let (os, ex) = partition_eq s
          in case (if ex = None then None else map_of osa os) of
            Some i \<Rightarrow> Inr (Some (Some i, os, Some ''='', ex))
          | None \<Rightarrow>
            (let ts = get_option_tuples osa s
             in if length ts > 1 then Inl UsageExit
                else if length ts = 1 then Inr (Some (hd ts))
                else if negative_number s \<and> \<not> hasneg then Inr None
                else if CHR '' '' \<in> set s then Inr None
                else Inr (Some (None, s, None, None))))"

type_synonym tok = "string \<times> pch \<times> opt_tuple option"

text \<open>
  The first loop of \<^verbatim>\<open>_parse_known_args\<close>: every token with its letter and, for an
  option, its tuple. After the token \<^verbatim>\<open>--\<close> everything is an argument.
\<close>

fun classify :: "(string \<times> nat) list \<Rightarrow> bool \<Rightarrow> string list \<Rightarrow> exc + tok list" where
  "classify osa hasneg [] = Inr []"
| "classify osa hasneg (s # ss) =
     (if s = ''--'' then Inr ((s, PD, None) # map (\<lambda>t. (t, PA, None)) ss)
      else case parse_optional osa hasneg s of
        Inl e \<Rightarrow> Inl e
      | Inr ot \<Rightarrow>
        (case classify osa hasneg ss of
           Inl e \<Rightarrow> Inl e
         | Inr r \<Rightarrow> Inr ((s, (if ot = None then PA else PO), ot) # r)))"

subsection \<open>Taking an action\<close>

text \<open>
  The mutable state of one run of \<^verbatim>\<open>_parse_known_args\<close>: the namespace, the actions
  seen, the extras, the positional actions not yet consumed, and the unrecognised
  arguments a sub-parser left behind.
\<close>

record pstate =
  ns :: namespace
  seen :: "nat list"
  extras :: "string list"
  positionals :: "nat list"
  unrecognized :: "string list"

definition setattr :: "string \<Rightarrow> pyval \<Rightarrow> namespace \<Rightarrow> namespace" where
  "setattr k v n = AList.update k v n"

text \<open>
  \<^verbatim>\<open>setattr(namespace, action.dest, v)\<close>; the marker \<^verbatim>\<open>SUPPRESS\<close> is itself the string
  \<^verbatim>\<open>==SUPPRESS==\<close>.
\<close>

definition store :: "string option \<Rightarrow> pyval \<Rightarrow> namespace \<Rightarrow> namespace" where
  "store d v n = setattr (case d of None \<Rightarrow> ''==SUPPRESS=='' | Some k \<Rightarrow> k) v n"

text \<open>Calling the \<^verbatim>\<open>type\<close> of an action on a token (\<^verbatim>\<open>_get_value\<close>).\<close>

definition get_value :: "pyenv \<Rightarrow> action \<Rightarrow> string \<Rightarrow> exc + pyval" where
  "get_value env a s =
     (case atype a of
        None \<Rightarrow> Inr (VStr s)
      | Some StrT \<Rightarrow> Inr (VStr s)
      | Some (OtherCallable n) \<Rightarrow>
          (case call_other env n s of
             Returns v \<Rightarrow> Inr v
           | Rejects \<Rightarrow> Inl UsageExit
           | Raises \<Rightarrow> Inl OtherError)
      | Some BoolT \<Rightarrow> Inr (VBool (s \<noteq> []))
      | Some ListT \<Rightarrow> Inr (VList (map (\<lambda>c. VStr [c]) s))
      | Some (NonCallable n) \<Rightarrow> Inl UsageExit)"

fun get_value_list :: "pyenv \<Rightarrow> action \<Rightarrow> string list \<Rightarrow> exc + pyval list" where
  "get_value_list env a [] = Inr []"
| "get_value_list env a (s # ss) =
     (case get_value env a s of
        Inl e \<Rightarrow> Inl e
      | Inr v \<Rightarrow>
        (case get_value_list env a ss of
           Inl e \<Rightarrow> Inl e
         | Inr vs \<Rightarrow> Inr (v # vs)))"

text \<open>
  \<^verbatim>\<open>_get_values\<close>. A positional action loses the first \<^verbatim>\<open>--\<close> among its strings. With
  \<^verbatim>\<open>nargs='?'\<close> and no string the value is \<^verbatim>\<open>const\<close> (never set by the module, so
  \<^verbatim>\<open>None\<close>) for an option and the default for a positional; no default of the module is
  a string, so none is converted. With \<^verbatim>\<open>nargs=PARSER\<close> the first value must be one of
  the choices.
\<close>

definition get_values :: "pyenv \<Rightarrow> action \<Rightarrow> string list \<Rightarrow> exc + pyval" where
  "get_values env a strs0 =
     (let strs = (if option_strings a = [] \<and> nargs a \<noteq> NParser
                  then remove1 ''--'' strs0 else strs0)
      in if strs = [] \<and> nargs a = NOpt
         then (if option_strings a \<noteq> [] then Inr VNone
               else Inr (case adefault a of None \<Rightarrow> VNone | Some d \<Rightarrow> d))
         else if length strs = 1 \<and> nargs a = NOpt
         then get_value env a (hd strs)
         else if nargs a = NParser
         then (case get_value_list env a strs of
                 Inl e \<Rightarrow> Inl e
               | Inr vs \<Rightarrow>
                   (case choices a of
                      None \<Rightarrow> Inr (VList vs)
                    | Some ch \<Rightarrow>
                        if hd strs \<in> set ch then Inr (VList vs) else Inl UsageExit))
         else (case get_value_list env a strs of
                 Inl e \<Rightarrow> Inl e
               | Inr vs \<Rightarrow> Inr (VList vs)))"

text \<open>
  What a sub-parser run hands back to \<^verbatim>\<open>_SubParsersAction.__call__\<close>: its namespace and
  the arguments it did not recognise.
\<close>

type_synonym subcall = "string list \<Rightarrow> exc + namespace \<times> string list"

text \<open>
  \<^verbatim>\<open>take_action\<close>: note the action as seen, convert the strings, then call the action.
  \<^verbatim>\<open>_StoreAction\<close> stores the values, \<^verbatim>\<open>_StoreConstAction\<close> stores its constant,
  \<^verbatim>\<open>_HelpAction\<close> prints the help and exits, \<^verbatim>\<open>_SubParsersAction\<close> stores the command
  name under its \<^verbatim>\<open>dest\<close>, runs the chosen parser on the other strings, copies every
  attribute of that parser's namespace over and keeps the unrecognised arguments.
\<close>

definition take_action ::
  "pyenv \<Rightarrow> subcall \<Rightarrow> action list \<Rightarrow> nat \<Rightarrow> string list \<Rightarrow> pstate \<Rightarrow> exc + pstate" where
  "take_action env sub acts i strs st =
     (let a = acts ! i; st1 = st\<lparr>seen := i # seen st\<rparr>
      in case get_values env a strs of
        Inl e \<Rightarrow> Inl e
      | Inr v \<Rightarrow>
        (case akind a of
           AStore \<Rightarrow>
             Inr (st1\<lparr>ns := store (dest a) v (ns st1)\<rparr>)
         | AStoreConst c \<Rightarrow>
             Inr (st1\<lparr>ns := store (dest a) c (ns st1)\<rparr>)
         | AHelp \<Rightarrow> Inl HelpExit
         | ASubParsers \<Rightarrow>
             (let n1 = (case dest a of None \<Rightarrow> ns st1
                        | Some d \<Rightarrow> setattr d (VStr (hd strs)) (ns st1))
              in case sub strs of
                Inl e \<Rightarrow> Inl e
              | Inr (subns, unrec) \<Rightarrow>
                  Inr (st1\<lparr>ns := fold (\<lambda>(k, v). setattr k v) subns n1,
                          unrecognized := unrecognized st1 @ unrec\<rparr>))))"

subsection \<open>Consuming positionals and options\<close>

definition tok_str :: "tok \<Rightarrow> string" where
  "tok_str t = fst t"

definition tok_pat :: "tok \<Rightarrow> pch" where
  "tok_pat t = fst (snd t)"

definition is_opt :: "tok \<Rightarrow> bool" where
  "is_opt t = (tok_pat t = PO)"

text \<open>
  \<^verbatim>\<open>_match_arguments_partial\<close>: the longest initial run of the remaining positionals
  whose patterns, concatenated, match; \<open>i\<close> counts down from their number.
\<close>

fun match_arguments_partial ::
  "action list \<Rightarrow> nat list \<Rightarrow> nat \<Rightarrow> pch list \<Rightarrow> nat list" where
  "match_arguments_partial acts ps 0 pat = []"
| "match_arguments_partial acts ps (Suc j) pat =
     (case rx (map (\<lambda>i. get_nargs_pattern (acts ! i)) (take (Suc j) ps)) 0 pat of
        Some r \<Rightarrow> r
      | None \<Rightarrow> match_arguments_partial acts ps j pat)"

text \<open>The loop over \<^verbatim>\<open>zip(positionals, arg_counts)\<close> in \<^verbatim>\<open>consume_positionals\<close>.\<close>

fun take_positionals ::
  "pyenv \<Rightarrow> subcall \<Rightarrow> action list \<Rightarrow> nat list \<Rightarrow> nat list \<Rightarrow> string list \<Rightarrow> pstate
     \<Rightarrow> exc + pstate" where
  "take_positionals env sub acts (i # is) (c # cs) strs st =
     (case take_action env sub acts i (take c strs) st of
        Inl e \<Rightarrow> Inl e
      | Inr st1 \<Rightarrow> take_positionals env sub acts is cs (drop c strs) st1)"
| "take_positionals env sub acts is cs strs st = Inr st"

text \<open>
  \<^verbatim>\<open>consume_positionals\<close> on the tokens from \<^verbatim>\<open>start_index\<close> on: the new state and the
  number of tokens consumed.
\<close>

definition consume_positionals ::
  "pyenv \<Rightarrow> subcall \<Rightarrow> action list \<Rightarrow> pstate \<Rightarrow> tok list \<Rightarrow> exc + pstate \<times> nat" where
  "consume_positionals env sub acts st toks =
     (let counts = match_arguments_partial acts (positionals st)
                     (length (positionals st)) (map tok_pat toks)
      in case take_positionals env sub acts (positionals st) counts (map tok_str toks) st of
        Inl e \<Rightarrow> Inl e
      | Inr st1 \<Rightarrow>
          Inr (st1\<lparr>positionals := drop (length counts) (positionals st1)\<rparr>,
               sum_list counts))"

text \<open>\<^verbatim>\<open>_match_argument\<close>: the number of strings one action takes, or a usage error.\<close>

definition match_argument :: "action \<Rightarrow> pch list \<Rightarrow> exc + nat" where
  "match_argument a pat =
     (case rx [get_nargs_pattern a] 0 pat of
        None \<Rightarrow> Inl UsageExit
      | Some r \<Rightarrow> Inr (sum_list r))"

text \<open>
  The \<^verbatim>\<open>while True\<close> loop of \<^verbatim>\<open>consume_optional\<close>, entered with an action: the
  (action, strings) pairs to take, the strings to add to the extras, and how many of the
  following tokens were used. With an explicit argument (\<^verbatim>\<open>--x=v\<close>, \<^verbatim>\<open>-xv\<close>) the action
  must take exactly one string, unless it is a single-dash option taking none, whose
  tail is read as further single-dash options.
\<close>

function optional_chain ::
  "action list \<Rightarrow> (string \<times> nat) list \<Rightarrow> tok list \<Rightarrow> nat \<Rightarrow> string \<Rightarrow> string option
     \<Rightarrow> string option \<Rightarrow> exc + (nat \<times> string list) list \<times> string list \<times> nat" where
  "optional_chain acts osa following a os sep None =
     (case match_argument (acts ! a) (map tok_pat following) of
        Inl e \<Rightarrow> Inl e
      | Inr c \<Rightarrow> Inr ([(a, map tok_str (take c following))], [], c))"
| "optional_chain acts osa following a os sep (Some ex) =
     (case match_argument (acts ! a) [PA] of
        Inl e \<Rightarrow> Inl e
      | Inr c \<Rightarrow>
        (case drop 1 os of
           [] \<Rightarrow> Inl IndexError
         | c1 # _ \<Rightarrow>
           if c = 0 \<and> c1 \<noteq> CHR ''-'' \<and> ex \<noteq> []
           then (if (sep \<noteq> None \<and> sep \<noteq> Some []) \<or> hd ex = CHR ''-''
                 then Inl UsageExit
                 else (let os1 = [hd os, hd ex]
                   in case map_of osa os1 of
                     None \<Rightarrow> Inr ([(a, [])], [hd os # ex], 0)
                   | Some a1 \<Rightarrow>
                     (case optional_chain acts osa following a1 os1
                             (if tl ex = [] then None
                              else if hd (tl ex) = CHR ''='' then Some ''=''
                              else Some [])
                             (if tl ex = [] then None
                              else if hd (tl ex) = CHR ''='' then Some (tl (tl ex))
                              else Some (tl ex)) of
                        Inl e \<Rightarrow> Inl e
                      | Inr (ts, xs, n) \<Rightarrow> Inr ((a, []) # ts, xs, n))))
           else if c = 1 then Inr ([(a, [ex])], [], 0)
           else Inl UsageExit))"
  by pat_completeness auto
termination
  by (relation "measure (\<lambda>(acts, osa, following, a, os, sep, ex).
        case ex of None \<Rightarrow> 0 | Some e \<Rightarrow> Suc (length e))")
     (auto split: if_splits)

fun take_actions ::
  "pyenv \<Rightarrow> subcall \<Rightarrow> action list \<Rightarrow> (nat \<times> string list) list \<Rightarrow> pstate \<Rightarrow> exc + pstate" where
  "take_actions env sub acts [] st = Inr st"
| "take_actions env sub acts ((i, strs) # ts) st =
     (case take_action env sub acts i strs st of
        Inl e \<Rightarrow> Inl e
      | Inr st1 \<Rightarrow> take_actions env sub acts ts st1)"

text \<open>
  \<^verbatim>\<open>consume_optional\<close> on the tokens from an option on: the new state and the number of
  tokens used after the option itself. An option no action answers to goes to the
  extras.
\<close>

definition consume_optional ::
  "pyenv \<Rightarrow> subcall \<Rightarrow> action list \<Rightarrow> (string \<times> nat) list \<Rightarrow> pstate \<Rightarrow> tok list
     \<Rightarrow> exc + pstate \<times> nat" where
  "consume_optional env sub acts osa st toks =
     (case toks of
        [] \<Rightarrow> Inl IndexError
      | (s, p, None) # following \<Rightarrow> Inl IndexError
      | (s, p, Some (None, os, sep, ex)) # following \<Rightarrow>
          Inr (st\<lparr>extras := extras st @ [s]\<rparr>, 0)
      | (s, p, Some (Some a, os, sep, ex)) # following \<Rightarrow>
          (case optional_chain acts osa following a os sep ex of
             Inl e \<Rightarrow> Inl e
           | Inr (ts, xs, n) \<Rightarrow>
               (case take_actions env sub acts ts (st\<lparr>extras := extras st @ xs\<rparr>) of
                  Inl e \<Rightarrow> Inl e
                | Inr st1 \<Rightarrow> Inr (st1, n))))"

subsection \<open>The parsing loop\<close>

text \<open>
  The \<^verbatim>\<open>while start_index <= max_option_string_index\<close> loop, on the tokens from
  \<^verbatim>\<open>start_index\<close> on: the loop runs while an option is left among them, and
  \<^verbatim>\<open>next_option_string_index - start_index\<close> is the number of tokens before the first
  one. Positionals are consumed before the next option; if they took nothing, the tokens
  before the option go to the extras and the option is consumed.
\<close>

function parse_loop ::
  "pyenv \<Rightarrow> subcall \<Rightarrow> action list \<Rightarrow> (string \<times> nat) list \<Rightarrow> pstate \<Rightarrow> tok list
     \<Rightarrow> exc + pstate \<times> tok list" where
  "parse_loop env sub acts osa st toks =
     (if \<not> list_ex is_opt toks then Inr (st, toks)
      else (let k = length (takeWhile (\<lambda>t. \<not> is_opt t) toks)
        in if k \<noteq> 0
           then (case consume_positionals env sub acts st toks of
                   Inl e \<Rightarrow> Inl e
                 | Inr (st1, n) \<Rightarrow>
                     if n > 0 then parse_loop env sub acts osa st1 (drop n toks)
                     else (case consume_optional env sub acts osa
                                  (st1\<lparr>extras := extras st1 @ map tok_str (take k toks)\<rparr>)
                                  (drop k toks) of
                             Inl e \<Rightarrow> Inl e
                           | Inr (st2, c) \<Rightarrow>
                               parse_loop env sub acts osa st2 (drop (Suc (k + c)) toks)))
           else (case consume_optional env sub acts osa st toks of
                   Inl e \<Rightarrow> Inl e
                 | Inr (st2, c) \<Rightarrow> parse_loop env sub acts osa st2 (drop (Suc c) toks))))"
  by pat_completeness auto
termination
proof (relation "measure (\<lambda>(env, sub, acts, osa, st, toks). length toks)", goal_cases)
  case 1
  show ?case by simp
next
  case (2 env sub acts osa st toks k x2 st1 n)
  then have "toks \<noteq> []" by auto
  with 2 show ?case by simp
next
  case (3 env sub acts osa st toks k x2 st1 n x2a st2 c)
  then have "toks \<noteq> []" by auto
  then show ?case by simp
next
  case (4 env sub acts osa st toks k x2 st2 c)
  then have "toks \<noteq> []" by auto
  then show ?case by simp
qed

declare parse_loop.simps [simp del]

text \<open>
  The namespace \<^verbatim>\<open>parse_known_args\<close> starts from: the default of every action whose
  \<^verbatim>\<open>dest\<close> is not yet an attribute, then the parser's own defaults likewise.
\<close>

definition add_default :: "string \<Rightarrow> pyval \<Rightarrow> namespace \<Rightarrow> namespace" where
  "add_default k v n = (if k \<in> fst ` set n then n else setattr k v n)"

definition initial_namespace :: "parser \<Rightarrow> namespace" where
  "initial_namespace p =
     fold (\<lambda>(k, v). add_default k v) (defaults p)
       (fold (\<lambda>a n. case (dest a, adefault a) of
                       (Some d, Some v) \<Rightarrow> add_default d v n
                     | _ \<Rightarrow> n)
          (actions p) [])"

text \<open>The state \<^verbatim>\<open>_parse_known_args\<close> starts in: every positional is still to be consumed.\<close>

definition initial_pstate :: "parser \<Rightarrow> pstate" where
  "initial_pstate p =
     \<lparr>ns = initial_namespace p, seen = [], extras = [],
      positionals = filter (\<lambda>i. option_strings (actions p ! i) = []) [0..<length (actions p)],
      unrecognized = []\<rparr>"

text \<open>
  After the loop: consume the positionals that follow the last option, send what is left
  to the extras, and fail if a required action was never seen. (The source then converts
  string defaults of unseen actions; the module sets no string default.) The result is
  the namespace and the extras, with the arguments a sub-parser did not recognise.
\<close>

definition finish_parse ::
  "pyenv \<Rightarrow> subcall \<Rightarrow> action list \<Rightarrow> pstate \<Rightarrow> tok list \<Rightarrow> exc + namespace \<times> string list" where
  "finish_parse env sub acts st rest =
     (case consume_positionals env sub acts st rest of
        Inl e \<Rightarrow> Inl e
      | Inr (st1, n) \<Rightarrow>
          if list_ex (\<lambda>i. i \<notin> set (seen st1) \<and> required (acts ! i)) [0..<length acts]
          then Inl UsageExit
          else Inr (ns st1, extras st1 @ map tok_str (drop n rest) @ unrecognized st1))"

text \<open>
  \<^verbatim>\<open>parse_known_args\<close> with a fresh namespace: classify the tokens, run the loop, finish.
  Every \<^verbatim>\<open>ArgumentError\<close> is turned into \<^verbatim>\<open>parser.error\<close> here, which is why the model
  raises \<open>UsageExit\<close> directly.
\<close>

definition parse_known_args ::
  "pyenv \<Rightarrow> subcall \<Rightarrow> parser \<Rightarrow> string list \<Rightarrow> exc + namespace \<times> string list" where
  "parse_known_args env sub p argv =
     (case classify (option_string_actions (actions p))
             (has_negative_number_optionals (actions p)) argv of
        Inl e \<Rightarrow> Inl e
      | Inr toks \<Rightarrow>
        (case parse_loop env sub (actions p) (option_string_actions (actions p))
                (initial_pstate p) toks of
           Inl e \<Rightarrow> Inl e
         | Inr (st, rest) \<Rightarrow> finish_parse env sub (actions p) st rest))"

section \<open>The module: ScriptCommands\<close>

subsection \<open>State and construction\<close>

text \<open>
  The object's state. \<^verbatim>\<open>_parser\<close> and \<^verbatim>\<open>_subparsers\<close> are fixed by \<^verbatim>\<open>__init__\<close> up to
  the map from command names to sub-parsers (\<^verbatim>\<open>_name_parser_map\<close>, in insertion order);
  \<^verbatim>\<open>_args\<close> is \<^verbatim>\<open>None\<close> until \<^verbatim>\<open>render_menu\<close> assigns it.
\<close>

record script_commands =
  subparsers :: "(string \<times> parser) list"
  args :: "namespace option"

definition init :: script_commands where
  "init = \<lparr>subparsers = [], args = None\<rparr>"

text \<open>The \<^verbatim>\<open>-h\<close>/\<^verbatim>\<open>--help\<close> action every \<^verbatim>\<open>ArgumentParser\<close> starts with.\<close>

definition help_action :: action where
  "help_action = \<lparr>option_strings = [''-h'', ''--help''], dest = None, nargs = N0,
     akind = AHelp, atype = None, adefault = None, required = False, choices = None\<rparr>"

text \<open>
  The action made by \<^verbatim>\<open>add_subparsers(dest="cmd", ...)\<close>: a positional with
  \<^verbatim>\<open>nargs=PARSER\<close>, not required, default \<^verbatim>\<open>None\<close>, whose choices are the command names.
\<close>

definition subparsers_action :: "script_commands \<Rightarrow> action" where
  "subparsers_action s = \<lparr>option_strings = [], dest = Some ''cmd'', nargs = NParser,
     akind = ASubParsers, atype = None, adefault = Some VNone, required = False,
     choices = Some (map fst (subparsers s))\<rparr>"

definition top_parser :: "script_commands \<Rightarrow> parser" where
  "top_parser s = \<lparr>actions = [help_action, subparsers_action s], defaults = []\<rparr>"

subsection \<open>Registration\<close>

text \<open>One entry of \<^verbatim>\<open>func_spec["args"]\<close> and the \<^verbatim>\<open>func_spec\<close> dictionary itself.\<close>

record arg_spec =
  as_name :: string
  as_type :: pyobj
  as_help :: "string option"

record func_spec =
  fs_name :: string
  fs_help :: "string option"
  fs_long_help :: "string option"
  fs_function :: callable
  fs_args :: "arg_spec list"

text \<open>
  \<^verbatim>\<open>getattr(builtins, type_name)\<close>: \<^verbatim>\<open>TypeError\<close> when the documentation gives no type
  (the attribute name is \<^verbatim>\<open>None\<close>), \<^verbatim>\<open>AttributeError\<close> when \<^verbatim>\<open>builtins\<close> has no such
  attribute.
\<close>

definition getattr_builtins :: "pyenv \<Rightarrow> string option \<Rightarrow> exc + pyobj" where
  "getattr_builtins env tn =
     (case tn of
        None \<Rightarrow> Inl TypeError
      | Some n \<Rightarrow>
          if n = ''bool'' then Inr BoolT
          else if n = ''list'' then Inr ListT
          else if n = ''str'' then Inr StrT
          else (case other_builtins env n of
                  None \<Rightarrow> Inl AttributeError
                | Some t \<Rightarrow> Inr t))"

text \<open>
  The name given to \<^verbatim>\<open>add_argument\<close>, \<^verbatim>\<open>f"{'--' if pa.is_optional else ''}{pa.arg_name}"\<close>.
\<close>

definition display_name :: "doc_param \<Rightarrow> string" where
  "display_name pa = (if is_optional pa then ''--'' else []) @ arg_name pa"

text \<open>The list comprehension over \<^verbatim>\<open>parsed_doc_string.params\<close>.\<close>

fun build_args :: "pyenv \<Rightarrow> doc_param list \<Rightarrow> exc + arg_spec list" where
  "build_args env [] = Inr []"
| "build_args env (pa # pas) =
     (case getattr_builtins env (type_name pa) of
        Inl e \<Rightarrow> Inl e
      | Inr t \<Rightarrow>
        (case build_args env pas of
           Inl e \<Rightarrow> Inl e
         | Inr r \<Rightarrow>
             Inr (\<lparr>as_name = display_name pa, as_type = t, as_help = description pa\<rparr> # r)))"

text \<open>
  The action \<^verbatim>\<open>subparser.add_argument(name, help=..., **optional_params)\<close> creates, with
  the three shapes of \<^verbatim>\<open>_add_command\<close>: \<^verbatim>\<open>store_true\<close> for \<^verbatim>\<open>bool\<close> (no strings, default
  \<^verbatim>\<open>False\<close>), \<^verbatim>\<open>nargs='+'\<close> with type \<^verbatim>\<open>str\<close> for \<^verbatim>\<open>list\<close>, and \<^verbatim>\<open>nargs='?'\<close> with the
  given type otherwise. A name that starts with \<^verbatim>\<open>-\<close> makes an option, whose \<^verbatim>\<open>dest\<close> is
  the name without its leading dashes and with \<^verbatim>\<open>-\<close> turned into \<^verbatim>\<open>_\<close>; any other name
  makes a positional, required unless \<^verbatim>\<open>nargs\<close> is \<^verbatim>\<open>?\<close>.
\<close>

definition dest_of :: "string \<Rightarrow> string" where
  "dest_of nm = map (\<lambda>c. if c = CHR ''-'' then CHR ''_'' else c)
                  (dropWhile (\<lambda>c. c = CHR ''-'') nm)"

definition is_positional :: "string \<Rightarrow> bool" where
  "is_positional nm = (nm = [] \<or> hd nm \<noteq> CHR ''-'')"

definition arg_dest :: "string \<Rightarrow> string" where
  "arg_dest nm = (if is_positional nm then nm else dest_of nm)"

definition new_action :: "arg_spec \<Rightarrow> action" where
  "new_action arg =
     (let nm = as_name arg;
          (k, n, t, d) =
            (if as_type arg = BoolT then (AStoreConst (VBool True), N0, None, VBool False)
             else if as_type arg = ListT then (AStore, NPlus, Some StrT, VNone)
             else (AStore, NOpt, Some (as_type arg), VNone))
      in \<lparr>option_strings = (if is_positional nm then [] else [nm]),
          dest = Some (arg_dest nm), nargs = n, akind = k, atype = t, adefault = Some d,
          required = (is_positional nm \<and> n \<noteq> NOpt), choices = None\<rparr>)"

text \<open>
  \<^verbatim>\<open>add_argument\<close>: an empty name is an \<^verbatim>\<open>IndexError\<close>, an option name made of dashes
  only, or a type that cannot be called, a \<^verbatim>\<open>ValueError\<close>, an option string already taken
  an \<^verbatim>\<open>ArgumentError\<close>; otherwise the action joins the parser's actions.
\<close>

definition add_argument :: "parser \<Rightarrow> arg_spec \<Rightarrow> exc + parser" where
  "add_argument p arg =
     (let nm = as_name arg
      in if nm = [] then Inl IndexError
         else if hd nm = CHR ''-'' \<and> dropWhile (\<lambda>c. c = CHR ''-'') nm = [] then Inl ValueError
         else if (case atype (new_action arg) of Some (NonCallable x) \<Rightarrow> True | _ \<Rightarrow> False)
         then Inl ValueError
         else if hd nm = CHR ''-'' \<and> nm \<in> set (map fst (option_string_actions (actions p)))
         then Inl ArgumentError
         else Inr (p\<lparr>actions := actions p @ [new_action arg]\<rparr>))"

text \<open>The \<^verbatim>\<open>for arg in args\<close> loop; on an error the arguments added so far stay.\<close>

fun add_arguments :: "parser \<Rightarrow> arg_spec list \<Rightarrow> exc option \<times> parser" where
  "add_arguments p [] = (None, p)"
| "add_arguments p (arg # rest) =
     (case add_argument p arg of
        Inl e \<Rightarrow> (Some e, p)
      | Inr p1 \<Rightarrow> add_arguments p1 rest)"

text \<open>
  \<^verbatim>\<open>set_defaults(func=function)\<close>: the parser default, and the default of every action
  whose \<^verbatim>\<open>dest\<close> is \<^verbatim>\<open>func\<close>.
\<close>

definition set_defaults_func :: "parser \<Rightarrow> callable \<Rightarrow> parser" where
  "set_defaults_func p f =
     \<lparr>actions = map (\<lambda>a. if dest a = Some ''func'' then a\<lparr>adefault := Some (VFun f)\<rparr> else a)
                  (actions p),
      defaults = AList.update ''func'' (VFun f) (defaults p)\<rparr>"

text \<open>
  \<^verbatim>\<open>_add_command\<close>. \<^verbatim>\<open>add_parser\<close> refuses a name already in the map; the new parser is in
  the map before its arguments are added, so an error in the loop leaves it there,
  without the \<^verbatim>\<open>func\<close> default. The result is the exception raised, if any, and the
  state afterwards.
\<close>

definition add_command :: "script_commands \<Rightarrow> func_spec \<Rightarrow> exc option \<times> script_commands" where
  "add_command s spec =
     (if fs_name spec \<in> set (map fst (subparsers s)) then (Some ArgumentError, s)
      else (let (e, p) = add_arguments \<lparr>actions = [help_action], defaults = []\<rparr> (fs_args spec)
        in case e of
          Some err \<Rightarrow> (Some err, s\<lparr>subparsers := subparsers s @ [(fs_name spec, p)]\<rparr>)
        | None \<Rightarrow>
            (None, s\<lparr>subparsers := subparsers s @
                       [(fs_name spec, set_defaults_func p (fs_function spec))]\<rparr>)))"

text \<open>
  \<^verbatim>\<open>add_function\<close>: parse the documentation comment, build \<^verbatim>\<open>func_spec\<close> (the lookups of
  the type names happen here), then \<^verbatim>\<open>_add_command\<close>.
\<close>

definition add_function ::
  "pyenv \<Rightarrow> script_commands \<Rightarrow> callable \<Rightarrow> exc option \<times> script_commands" where
  "add_function env s f =
     (case parse_doc env (fn_doc f) of
        Inl e \<Rightarrow> (Some e, s)
      | Inr d \<Rightarrow>
        (case build_args env (params d) of
           Inl e \<Rightarrow> (Some e, s)
         | Inr as \<Rightarrow>
             add_command s
               \<lparr>fs_name = fn_name f, fs_help = short_description d,
                fs_long_help = (case long_description d of
                                  None \<Rightarrow> short_description d
                                | Some [] \<Rightarrow> short_description d
                                | Some l \<Rightarrow> Some l),
                fs_function = f, fs_args = as\<rparr>))"

subsection \<open>Parsing and execution\<close>

text \<open>
  What \<^verbatim>\<open>_SubParsersAction.__call__\<close> does with its strings: the first names the parser,
  which parses the others into a fresh namespace. A sub-parser made by \<^verbatim>\<open>_add_command\<close>
  has no sub-parsers of its own.
\<close>

definition subcall_of :: "pyenv \<Rightarrow> script_commands \<Rightarrow> subcall" where
  "subcall_of env s strs =
     (case map_of (subparsers s) (hd strs) of
        None \<Rightarrow> Inl UsageExit
      | Some p \<Rightarrow> parse_known_args env (\<lambda>x. Inl OtherError) p (tl strs))"

text \<open>\<^verbatim>\<open>self._parser.parse_args()\<close> on the argument vector \<^verbatim>\<open>sys.argv[1:]\<close>.\<close>

definition parse_args :: "pyenv \<Rightarrow> script_commands \<Rightarrow> string list \<Rightarrow> exc + namespace" where
  "parse_args env s argv =
     (case parse_known_args env (subcall_of env s) (top_parser s) argv of
        Inl e \<Rightarrow> Inl e
      | Inr (n, extra) \<Rightarrow> if extra \<noteq> [] then Inl UsageExit else Inr n)"

text \<open>Python's truth value of an object, as \<^verbatim>\<open>not x\<close> reads it.\<close>

fun truthy :: "pyval \<Rightarrow> bool" where
  "truthy VNone = False"
| "truthy (VBool b) = b"
| "truthy (VInt i) = (i \<noteq> 0)"
| "truthy (VStr s) = (s \<noteq> [])"
| "truthy (VList l) = (l \<noteq> [])"
| "truthy (VFun f) = True"
| "truthy (VOther r b) = b"

text \<open>What reaches standard output.\<close>

datatype event = Line string | TopLevelHelp | ParserHelp

text \<open>
  \<^verbatim>\<open>render_menu\<close>: what was printed, the exception raised, if any, and the state
  afterwards. The assignment to \<^verbatim>\<open>_args\<close> comes first and stands whatever the test of
  \<^verbatim>\<open>cmd\<close> finds; when \<^verbatim>\<open>parse_args\<close> itself exits, nothing was assigned.
\<close>

definition render_menu ::
  "pyenv \<Rightarrow> script_commands \<Rightarrow> string list \<Rightarrow> event list \<times> exc option \<times> script_commands" where
  "render_menu env s argv =
     (case parse_args env s argv of
        Inl e \<Rightarrow> ((if e = HelpExit then [ParserHelp] else []), Some e, s)
      | Inr n \<Rightarrow>
        (let s1 = s\<lparr>args := Some n\<rparr>
         in case map_of n ''cmd'' of
           None \<Rightarrow> ([], Some AttributeError, s1)
         | Some v \<Rightarrow>
             if \<not> truthy v
             then ([Line ''no arguments passed to cli'', TopLevelHelp],
                   Some NoArgumentsPassed, s1)
             else ([], None, s1)))"

text \<open>The dictionary comprehension of \<^verbatim>\<open>execute\<close>.\<close>

definition arg_dict :: "namespace \<Rightarrow> (string \<times> pyval) list" where
  "arg_dict n = filter (\<lambda>(k, v). k \<notin> {''cmd'', ''func''} \<and> v \<noteq> VNone) n"

text \<open>The call \<^verbatim>\<open>execute\<close> makes: the function and its keyword arguments.\<close>

datatype invocation = Invoke callable "(string \<times> pyval) list"

text \<open>
  \<^verbatim>\<open>execute\<close>: \<^verbatim>\<open>vars(None)\<close> is a \<^verbatim>\<open>TypeError\<close>, a namespace without \<^verbatim>\<open>func\<close> an
  \<^verbatim>\<open>AttributeError\<close>, a \<^verbatim>\<open>func\<close> that is no function a \<^verbatim>\<open>TypeError\<close>; otherwise the call
  is made and what it returns or raises is the callable's business.
\<close>

definition execute :: "script_commands \<Rightarrow> exc + invocation" where
  "execute s =
     (case args s of
        None \<Rightarrow> Inl TypeError
      | Some n \<Rightarrow>
        (case map_of n ''func'' of
           None \<Rightarrow> Inl AttributeError
         | Some (VFun f) \<Rightarrow> Inr (Invoke f (arg_dict n))
         | Some v \<Rightarrow> Inl TypeError))"

subsection \<open>Scripts\<close>

text \<open>
  A script registers its functions one after the other; \<open>register_all\<close> goes on after a
  registration that raised, as a caller that catches the exception would.
\<close>

fun register_all :: "pyenv \<Rightarrow> script_commands \<Rightarrow> callable list \<Rightarrow> script_commands" where
  "register_all env s [] = s"
| "register_all env s (f # fs) = register_all env (snd (add_function env s f)) fs"

text \<open>
  The two statements \<^verbatim>\<open>render_menu()\<close> and \<^verbatim>\<open>execute()\<close> in sequence: an exception of
  the first leaves the second out.
\<close>

definition render_then_execute ::
  "pyenv \<Rightarrow> script_commands \<Rightarrow> string list \<Rightarrow> event list \<times> (exc + invocation)" where
  "render_then_execute env s argv =
     (case render_menu env s argv of
        (out, Some e, s1) \<Rightarrow> (out, Inl e)
      | (out, None, s1) \<Rightarrow> (out, execute s1))"

section \<open>A sample environment\<close>

text \<open>
  A small environment to run the model in. Its documentation parser knows a handful of
  comments, returns an empty docstring for a missing comment, as \<^verbatim>\<open>docstring_parser\<close>
  does for an empty text, and rejects everything else. Its only other builtin is
  \<^verbatim>\<open>int\<close>, which here converts optionally signed strings of ASCII digits and rejects
  other tokens.
\<close>

definition mk_param :: "string \<Rightarrow> string \<Rightarrow> bool \<Rightarrow> doc_param" where
  "mk_param n t opt =
     \<lparr>arg_name = n, type_name = Some t, is_optional = opt, description = None\<rparr>"

definition mk_doc :: "string \<Rightarrow> doc_param list \<Rightarrow> docstring" where
  "mk_doc short ps = \<lparr>short_description = Some short, long_description = None, params = ps\<rparr>"

definition demo_parse :: "string option \<Rightarrow> exc + docstring" where
  "demo_parse d =
     (case d of
        None \<Rightarrow> Inr \<lparr>short_description = None, long_description = None, params = []\<rparr>
      | Some t \<Rightarrow>
          if t = ''Toggle. Args: verbose (bool, optional)''
          then Inr (mk_doc ''Toggle.'' [mk_param ''verbose'' ''bool'' True])
          else if t = ''Tag. Args: names (list)''
          then Inr (mk_doc ''Tag.'' [mk_param ''names'' ''list'' False])
          else if t = ''Greet. Args: name (str, optional)''
          then Inr (mk_doc ''Greet.'' [mk_param ''name'' ''str'' True])
          else if t = ''Count. Args: n (int, optional)''
          then Inr (mk_doc ''Count.'' [mk_param ''n'' ''int'' True])
          else if t = ''Route. Args: cmd (str)''
          then Inr (mk_doc ''Route.'' [mk_param ''cmd'' ''str'' False])
          else if t = ''Draw. Args: shape (Widget)''
          then Inr (mk_doc ''Draw.'' [mk_param ''shape'' ''Widget'' False])
          else if t = ''Ping.''
          then Inr (mk_doc ''Ping.'' [])
          else Inl ParseError)"

definition digits_value :: "string \<Rightarrow> int" where
  "digits_value s = foldl (\<lambda>a c. 10 * a + (of_char c - 48)) 0 s"

definition demo_int :: "string \<Rightarrow> conv" where
  "demo_int s =
     (let (neg, ds) = (case s of
                         c # r \<Rightarrow> if c = CHR ''-'' then (True, r)
                                  else if c = CHR ''+'' then (False, r) else (False, s)
                       | [] \<Rightarrow> (False, s))
      in if ds \<noteq> [] \<and> list_all is_digit ds
         then Returns (VInt (if neg then - digits_value ds else digits_value ds))
         else Rejects)"

definition demo_env :: pyenv where
  "demo_env = \<lparr>parse_doc = demo_parse,
     other_builtins = (\<lambda>n. if n = ''int'' then Some (OtherCallable ''int'') else None),
     call_other = (\<lambda>n s. if n = ''int'' then demo_int s else Raises)\<rparr>"

definition toggle :: callable where
  "toggle = \<lparr>fn_name = ''toggle'', fn_doc = Some ''Toggle. Args: verbose (bool, optional)''\<rparr>"

definition tag :: callable where
  "tag = \<lparr>fn_name = ''tag'', fn_doc = Some ''Tag. Args: names (list)''\<rparr>"

definition greet :: callable where
  "greet = \<lparr>fn_name = ''greet'', fn_doc = Some ''Greet. Args: name (str, optional)''\<rparr>"

definition count :: callable where
  "count = \<lparr>fn_name = ''count'', fn_doc = Some ''Count. Args: n (int, optional)''\<rparr>"

definition route :: callable where
  "route = \<lparr>fn_name = ''route'', fn_doc = Some ''Route. Args: cmd (str)''\<rparr>"

definition draw :: callable where
  "draw = \<lparr>fn_name = ''draw'', fn_doc = Some ''Draw. Args: shape (Widget)''\<rparr>"

definition ping :: callable where
  "ping = \<lparr>fn_name = ''ping'', fn_doc = Some ''Ping.''\<rparr>"

definition nodoc :: callable where
  "nodoc = \<lparr>fn_name = ''nodoc'', fn_doc = None\<rparr>"

definition garbled :: callable where
  "garbled = \<lparr>fn_name = ''garbled'', fn_doc = Some ''Args: (((''\<rparr>"

section \<open>Registration: what a failed lookup and a rejected comment do\<close>

lemma getattr_builtins_error:
  "getattr_builtins env tn = Inl e \<Longrightarrow> e = AttributeError \<or> e = TypeError"
  by (auto simp: getattr_builtins_def split: option.splits if_splits)

lemma build_args_fails:
  "pa \<in> set ps \<Longrightarrow> getattr_builtins env (type_name pa) = Inl e0 \<Longrightarrow>
   \<exists>e. build_args env ps = Inl e \<and> (e = AttributeError \<or> e = TypeError)"
proof (induction ps)
  case Nil
  then show ?case by simp
next
  case (Cons p ps)
  show ?case
  proof (cases "getattr_builtins env (type_name p)")
    case (Inl e)
    with getattr_builtins_error [OF Inl] show ?thesis by auto
  next
    case (Inr t)
    with Cons.prems have "pa \<in> set ps" by auto
    with Cons Inr show ?thesis by (auto split: sum.splits)
  qed
qed

lemma build_args_typed_error:
  "\<forall>p \<in> set ps. type_name p \<noteq> None \<Longrightarrow> build_args env ps = Inl e \<Longrightarrow> e = AttributeError"
proof (induction ps)
  case Nil
  then show ?case by simp
next
  case (Cons p ps)
  then show ?case
    by (auto simp: getattr_builtins_def split: sum.splits option.splits if_splits)
qed

text \<open>
  Claim C2. When the documentation comment of a callable declares a parameter whose type
  name is not a name of \<^verbatim>\<open>builtins\<close>, \<^verbatim>\<open>add_function\<close> raises and the registry is exactly
  what it was: no sub-command was added. The exception is the \<^verbatim>\<open>AttributeError\<close> of the
  failed lookup (a \<^verbatim>\<open>TypeError\<close> only if an earlier parameter has no type name at all).
\<close>

theorem unknown_type_name_rejected:
  assumes "parse_doc env (fn_doc f) = Inr d"
    and "pa \<in> set (params d)"
    and "type_name pa = Some n"
    and "n \<notin> {''bool'', ''list'', ''str''}"
    and "other_builtins env n = None"
  shows "\<exists>e. add_function env s f = (Some e, s) \<and> (e = AttributeError \<or> e = TypeError) \<and>
           ((\<forall>p \<in> set (params d). type_name p \<noteq> None) \<longrightarrow> e = AttributeError)"
proof -
  from assms(3-5) have "getattr_builtins env (type_name pa) = Inl AttributeError"
    by (simp add: getattr_builtins_def)
  from build_args_fails [OF assms(2) this]
  obtain e where e: "build_args env (params d) = Inl e" "e = AttributeError \<or> e = TypeError"
    by blast
  with assms(1) have "add_function env s f = (Some e, s)"
    by (simp add: add_function_def)
  with e build_args_typed_error [of "params d" env e] show ?thesis by blast
qed

theorem unknown_type_name_rejected_witness:
  "parse_doc demo_env (fn_doc draw) = Inr (mk_doc ''Draw.'' [mk_param ''shape'' ''Widget'' False])
   \<and> add_function demo_env (register_all demo_env init [toggle]) draw
       = (Some AttributeError, register_all demo_env init [toggle])"
proof -
  have d: "parse_doc demo_env (fn_doc draw)
             = Inr (mk_doc ''Draw.'' [mk_param ''shape'' ''Widget'' False])"
    by (simp add: demo_env_def demo_parse_def draw_def)
  have m: "mk_param ''shape'' ''Widget'' False
             \<in> set (params (mk_doc ''Draw.'' [mk_param ''shape'' ''Widget'' False]))"
    by (simp add: mk_doc_def)
  have t: "type_name (mk_param ''shape'' ''Widget'' False) = Some ''Widget''"
    by (simp add: mk_param_def)
  have n: "''Widget'' \<notin> {''bool'', ''list'', ''str''}" by simp
  have b: "other_builtins demo_env ''Widget'' = None" by (simp add: demo_env_def)
  have a: "\<forall>p \<in> set (params (mk_doc ''Draw.'' [mk_param ''shape'' ''Widget'' False])).
             type_name p \<noteq> None"
    by (simp add: mk_doc_def mk_param_def)
  from unknown_type_name_rejected [OF d m t n b, of "register_all demo_env init [toggle]"] a
  have "add_function demo_env (register_all demo_env init [toggle]) draw
          = (Some AttributeError, register_all demo_env init [toggle])"
    by auto
  with d show ?thesis by simp
qed

text \<open>
  Claim C3, as the code has it. \<^verbatim>\<open>add_function\<close> has no check of its own on the
  documentation comment: it hands \<^verbatim>\<open>__doc__\<close> to the documentation parser. When the parser
  raises, \<^verbatim>\<open>add_function\<close> raises the same exception at once and the registry is exactly
  what it was. When the parser returns a docstring without parameters for a missing
  comment, a fresh name is registered as a command without arguments.
\<close>

theorem rejected_comment_raises:
  "(parse_doc env (fn_doc f) = Inl e \<longrightarrow> add_function env s f = (Some e, s)) \<and>
   (parse_doc env (fn_doc f) = Inr d \<and> params d = [] \<and> fn_name f \<notin> fst ` set (subparsers s)
      \<longrightarrow> add_function env s f =
            (None, s\<lparr>subparsers := subparsers s @
               [(fn_name f, \<lparr>actions = [help_action], defaults = [(''func'', VFun f)]\<rparr>)]\<rparr>))"
  by (simp add: add_function_def add_command_def set_defaults_func_def help_action_def)

theorem rejected_comment_raises_witness:
  "parse_doc demo_env (fn_doc garbled) = Inl ParseError
   \<and> add_function demo_env init garbled = (Some ParseError, init)
   \<and> parse_doc demo_env (fn_doc ping) = Inr (mk_doc ''Ping.'' [])
   \<and> params (mk_doc ''Ping.'' []) = []
   \<and> fn_name ping \<notin> fst ` set (subparsers init)
   \<and> add_function demo_env init ping =
       (None, init\<lparr>subparsers := subparsers init @
          [(fn_name ping, \<lparr>actions = [help_action], defaults = [(''func'', VFun ping)]\<rparr>)]\<rparr>)"
proof -
  have d: "parse_doc demo_env (fn_doc garbled) = Inl ParseError"
    by (simp add: demo_env_def demo_parse_def garbled_def)
  have p: "parse_doc demo_env (fn_doc ping) = Inr (mk_doc ''Ping.'' [])"
    by (simp add: demo_env_def demo_parse_def ping_def)
  have q: "params (mk_doc ''Ping.'' []) = []" by (simp add: mk_doc_def)
  have r: "fn_name ping \<notin> fst ` set (subparsers init)" by (simp add: init_def)
  from d p q r rejected_comment_raises [where env = demo_env and f = garbled
      and e = ParseError and s = init]
    rejected_comment_raises [where env = demo_env and f = ping and s = init
      and d = "mk_doc ''Ping.'' []"]
  show ?thesis by simp
qed

text \<open>
  Claim C3, as the specification words it, fails for a missing comment: in the sample
  environment, whose documentation parser answers a missing comment with an empty
  docstring, registering a function without a comment raises nothing and adds a command.
\<close>

theorem missing_comment_registers:
  "add_function demo_env init nodoc =
     (None, \<lparr>subparsers = [(''nodoc'', \<lparr>actions = [help_action],
                                         defaults = [(''func'', VFun nodoc)]\<rparr>)],
             args = None\<rparr>)"
  by code_simp

section \<open>Parsing without a sub-command\<close>

lemma top_positionals:
  "filter (\<lambda>i. option_strings ([help_action, subparsers_action s] ! i) = []) [0..<2] = [1]"
  by (simp add: help_action_def subparsers_action_def upt_rec numeral_2_eq_2)

lemma initial_pstate_top:
  "initial_pstate (top_parser s) =
     \<lparr>ns = [(''cmd'', VNone)], seen = [], extras = [], positionals = [Suc 0],
      unrecognized = []\<rparr>"
  by (simp add: initial_pstate_def top_parser_def top_positionals initial_namespace_def
      help_action_def subparsers_action_def add_default_def setattr_def)

lemma parse_args_empty: "parse_args env s [] = Inr [(''cmd'', VNone)]"
  apply (simp add: parse_args_def parse_known_args_def initial_pstate_top
      parse_loop.simps [of _ _ _ _ _ "[]"] finish_parse_def consume_positionals_def)
  apply (simp add: top_parser_def help_action_def subparsers_action_def
      get_nargs_pattern_def nargs_items_def upt_rec numeral_2_eq_2)
  done

lemma render_menu_falsy_cmd:
  "parse_args env s argv = Inr n \<Longrightarrow> map_of n ''cmd'' = Some v \<Longrightarrow> \<not> truthy v \<Longrightarrow>
   render_menu env s argv =
     ([Line ''no arguments passed to cli'', TopLevelHelp], Some NoArgumentsPassed,
      s\<lparr>args := Some n\<rparr>)"
  by (simp add: render_menu_def)

text \<open>
  Claim C4. For every registry, parsing the empty argument vector prints the line and
  the top-level help on standard output and raises \<^verbatim>\<open>NoArgumentsPassed\<close>, an exception of
  the module and not an exit of the process; the statement after \<^verbatim>\<open>render_menu()\<close>,
  \<^verbatim>\<open>execute()\<close>, is not reached. The same holds for every argument vector that parses to a
  namespace whose \<^verbatim>\<open>cmd\<close> is not true.
\<close>

theorem no_subcommand_raises:
  "render_menu env s [] =
     ([Line ''no arguments passed to cli'', TopLevelHelp], Some NoArgumentsPassed,
      s\<lparr>args := Some [(''cmd'', VNone)]\<rparr>)
   \<and> render_then_execute env s [] =
       ([Line ''no arguments passed to cli'', TopLevelHelp], Inl NoArgumentsPassed)
   \<and> (\<forall>argv n v. parse_args env s argv = Inr n \<and> map_of n ''cmd'' = Some v \<and> \<not> truthy v
        \<longrightarrow> render_then_execute env s argv =
              ([Line ''no arguments passed to cli'', TopLevelHelp], Inl NoArgumentsPassed))"
proof -
  have e: "render_menu env s [] =
     ([Line ''no arguments passed to cli'', TopLevelHelp], Some NoArgumentsPassed,
      s\<lparr>args := Some [(''cmd'', VNone)]\<rparr>)"
    by (rule render_menu_falsy_cmd [where v = VNone, OF parse_args_empty]) simp_all
  then have "render_then_execute env s [] =
       ([Line ''no arguments passed to cli'', TopLevelHelp], Inl NoArgumentsPassed)"
    by (simp add: render_then_execute_def)
  with e show ?thesis
    by (auto simp: render_then_execute_def dest: render_menu_falsy_cmd)
qed

theorem no_subcommand_raises_witness:
  "parse_args demo_env (register_all demo_env init [toggle, tag]) [] = Inr [(''cmd'', VNone)]
   \<and> map_of [(''cmd'', VNone)] ''cmd'' = Some VNone \<and> \<not> truthy VNone
   \<and> render_then_execute demo_env (register_all demo_env init [toggle, tag]) [] =
       ([Line ''no arguments passed to cli'', TopLevelHelp], Inl NoArgumentsPassed)"
  using no_subcommand_raises [of demo_env "register_all demo_env init [toggle, tag]"]
  by (simp add: parse_args_empty)

text \<open>
  Claim C5, as the code has it. \<^verbatim>\<open>render_menu\<close> assigns the parsed namespace to \<^verbatim>\<open>_args\<close>
  as soon as \<^verbatim>\<open>parse_args\<close> returns, before it looks at \<^verbatim>\<open>cmd\<close>: the state afterwards
  holds the parsed result whether or not a sub-command was selected, and is the state
  before only when \<^verbatim>\<open>parse_args\<close> itself did not return.
\<close>

theorem render_menu_stores_result:
  "snd (snd (render_menu env s argv)) =
     (case parse_args env s argv of Inl e \<Rightarrow> s | Inr n \<Rightarrow> s\<lparr>args := Some n\<rparr>)"
  by (simp add: render_menu_def Let_def split: sum.splits option.splits)

text \<open>
  Claim C5, as the specification words it, fails: on a fresh registry the empty argument
  vector raises \<^verbatim>\<open>NoArgumentsPassed\<close> and yet the stored result has changed.
\<close>

theorem failure_path_changes_stored_result:
  "fst (snd (render_menu demo_env init [])) = Some NoArgumentsPassed
   \<and> args (snd (snd (render_menu demo_env init []))) = Some [(''cmd'', VNone)]
   \<and> args (snd (snd (render_menu demo_env init []))) \<noteq> args init"
  by (simp add: render_menu_def parse_args_empty init_def)

section \<open>Execution\<close>

lemma args_add_command: "args (snd (add_command s spec)) = args s"
  by (simp add: add_command_def Let_def split: prod.splits option.splits)

lemma args_add_function: "args (snd (add_function env s f)) = args s"
  by (simp add: add_function_def args_add_command split: sum.splits)

lemma args_register_all: "args (register_all env s fs) = args s"
  by (induction fs arbitrary: s) (simp_all add: args_add_function)

text \<open>
  Claim C9. Before any parse the stored result is \<^verbatim>\<open>None\<close>, however many functions were
  registered, and \<^verbatim>\<open>execute\<close> then raises (the \<^verbatim>\<open>TypeError\<close> of \<^verbatim>\<open>vars(None)\<close>): it makes no
  call and returns nothing.
\<close>

theorem execute_before_parse:
  "args (register_all env init fs) = None \<and> execute (register_all env init fs) = Inl TypeError"
  by (simp add: args_register_all execute_def init_def)

text \<open>
  Claim C10. Whatever the namespace, the keyword arguments of the call \<^verbatim>\<open>execute\<close> makes
  never include \<^verbatim>\<open>cmd\<close> or \<^verbatim>\<open>func\<close>: a function whose comment documents a parameter of
  one of these names does not receive it.
\<close>

theorem execute_reserved_names:
  "execute s = Inr (Invoke f kw) \<Longrightarrow> ''cmd'' \<notin> fst ` set kw \<and> ''func'' \<notin> fst ` set kw"
  by (auto simp: execute_def arg_dict_def split: option.splits pyval.splits)

lemma route_run:
  "snd (snd (render_menu demo_env (register_all demo_env init [route]) [''route'', ''x'']))
     = (register_all demo_env init [route])
        \<lparr>args := Some [(''cmd'', VStr ''x''), (''func'', VFun route)]\<rparr>"
  by code_simp

theorem execute_reserved_names_witness:
  "execute ((register_all demo_env init [route])
       \<lparr>args := Some [(''cmd'', VStr ''x''), (''func'', VFun route)]\<rparr>) = Inr (Invoke route [])
   \<and> ''cmd'' \<notin> fst ` set ([] :: (string \<times> pyval) list)
   \<and> ''func'' \<notin> fst ` set ([] :: (string \<times> pyval) list)"
proof -
  have e: "execute ((register_all demo_env init [route])
       \<lparr>args := Some [(''cmd'', VStr ''x''), (''func'', VFun route)]\<rparr>) = Inr (Invoke route [])"
    by (simp add: execute_def arg_dict_def)
  from execute_reserved_names [OF e] e show ?thesis by simp
qed

section \<open>From the top-level parser to the sub-parser\<close>

lemma osa_top: "option_string_actions [help_action, subparsers_action s] = [(''-h'', 0), (''--help'', 0)]"
  by (simp add: option_string_actions_def help_action_def subparsers_action_def)

lemma hasneg_top: "has_negative_number_optionals [help_action, subparsers_action s] = False"
  by (simp add: has_negative_number_optionals_def osa_top negative_number_def neg_core_def is_digit_def)

lemma take2_dashes: "take 2 t = ''--'' \<Longrightarrow> \<exists>r. t = CHR ''-'' # CHR ''-'' # r"
  by (cases t; cases "tl t") auto

lemma tuples_top:
  assumes "2 \<le> length t"
  shows "length (get_option_tuples [(''-h'', 0), (''--help'', 0)] t) \<le> Suc 0"
proof (cases "take 2 t = ''--''")
  case True
  then obtain r where "t = CHR ''-'' # CHR ''-'' # r" using take2_dashes by blast
  then have "\<not> startswith ''-h'' (fst (partition_eq t))"
    by (simp add: startswith_def partition_eq_def)
  then show ?thesis using True
    by (auto simp add: get_option_tuples_def Let_def split: prod.splits)
next
  case False
  from assms obtain a b v where t: "t = a # b # v"
    by (cases t; cases "tl t") auto
  with False have "\<not> startswith ''--help'' t"
    by (auto simp add: startswith_def)
  moreover have "''--help'' \<noteq> take 2 t" using t by simp
  ultimately show ?thesis using False
    by (simp add: get_option_tuples_def Let_def)
qed

lemma parse_optional_top:
  "\<exists>r. parse_optional [(''-h'', 0), (''--help'', 0)] False t = Inr r"
proof (cases "2 \<le> length t")
  case True
  from tuples_top [OF this] show ?thesis
    by (auto simp: parse_optional_def Let_def split: option.splits prod.splits)
next
  case False
  then have "t = [] \<or> length t = 1" by (cases t; cases "tl t") auto
  then show ?thesis
    by (auto simp: parse_optional_def Let_def split: option.splits prod.splits)
qed

lemma classify_top:
  "\<exists>toks. classify [(''-h'', 0), (''--help'', 0)] False argv = Inr toks \<and> map tok_str toks = argv"
proof (induction argv)
  case Nil then show ?case by simp
next
  case (Cons t ts)
  obtain r where "parse_optional [(''-h'', 0), (''--help'', 0)] False t = Inr r"
    using parse_optional_top by blast
  with Cons show ?case by (auto simp: tok_str_def comp_def)
qed

lemma rx_star_all:
  "set pat \<subseteq> set cs \<Longrightarrow> rx [[(cs, Star)]] acc pat = Some [acc + length pat]"
  by (induction pat arbitrary: acc) auto

lemma pch_all: "set (pat :: pch list) \<subseteq> set [PD, PA, PO]"
proof
  fix x assume "x \<in> set pat"
  show "x \<in> set [PD, PA, PO]" by (cases x) auto
qed

lemma rx_parser:
  "rx [nargs_items NParser] 0 (PA # pat) = Some [Suc (length pat)]"
  using rx_star_all [OF pch_all, where pat = pat and acc = "Suc 0"] by (simp add: nargs_items_def)

lemma get_value_list_id:
  "atype a = None \<Longrightarrow> get_value_list env a strs = Inr (map VStr strs)"
  by (induction strs) (simp_all add: get_value_def)

lemma consume_top:
  assumes "map_of (subparsers s) name = Some p"
  shows "consume_positionals env (subcall_of env s) [help_action, subparsers_action s]
           \<lparr>ns = [(''cmd'', VNone)], seen = [], extras = [], positionals = [Suc 0], unrecognized = []\<rparr>
           ((name, PA, None) # toks') =
         (case parse_known_args env (\<lambda>x. Inl OtherError) p (map tok_str toks') of
            Inl e \<Rightarrow> Inl e
          | Inr (subns, unrec) \<Rightarrow>
              Inr (\<lparr>ns = fold (\<lambda>(k, v). setattr k v) subns [(''cmd'', VStr name)], seen = [Suc 0],
                    extras = [], positionals = [], unrecognized = unrec\<rparr>,
                   Suc (length toks')))"
proof -
  have m: "name \<in> fst ` set (subparsers s)"
    using assms by (metis map_of_eq_None_iff option.distinct(1))
  show ?thesis
    using assms m
    by (simp add: consume_positionals_def tok_pat_def tok_str_def get_nargs_pattern_def subparsers_action_def
        rx_parser take_action_def get_values_def get_value_list_id subcall_of_def
        setattr_def comp_def
        split: sum.splits prod.splits)
qed

lemma actions_top: "actions (top_parser s) = [help_action, subparsers_action s]"
  by (simp add: top_parser_def)

lemma finish_top:
  "finish_parse env sub [help_action, subparsers_action s]
      \<lparr>ns = n, seen = [Suc 0], extras = [], positionals = [], unrecognized = u\<rparr> [] = Inr (n, u)"
  by (simp add: finish_parse_def consume_positionals_def help_action_def subparsers_action_def
      upt_rec numeral_2_eq_2)

lemma finish_top2:
  "consume_positionals env sub [help_action, subparsers_action s] st rest =
     Inr (\<lparr>ns = n, seen = [Suc 0], extras = [], positionals = [], unrecognized = u\<rparr>, length rest)
   \<Longrightarrow> finish_parse env sub [help_action, subparsers_action s] st rest = Inr (n, u)"
  by (simp add: finish_parse_def help_action_def subparsers_action_def upt_rec numeral_2_eq_2)

lemma top_loop_finish:
  assumes p: "map_of (subparsers s) name = Some p"
  shows "(case parse_loop env (subcall_of env s) [help_action, subparsers_action s] osa
                (initial_pstate (top_parser s)) ((name, PA, None) # toks') of
            Inl e \<Rightarrow> Inl e
          | Inr (st, rest) \<Rightarrow>
              finish_parse env (subcall_of env s) [help_action, subparsers_action s] st rest) =
         (case parse_known_args env (\<lambda>x. Inl OtherError) p (map tok_str toks') of
            Inl e \<Rightarrow> Inl e
          | Inr (subns, unrec) \<Rightarrow>
              Inr (fold (\<lambda>(k, v). setattr k v) subns [(''cmd'', VStr name)], unrec))"
proof (cases "parse_known_args env (\<lambda>x. Inl OtherError) p (map tok_str toks')")
  case (Inl e)
  note cp = consume_top [OF p, of env toks', unfolded Inl, simplified]
  show ?thesis
  proof (cases "list_ex is_opt ((name, PA, None) # toks')")
    case False
    then show ?thesis
      by (subst parse_loop.simps) (simp add: Inl initial_pstate_top finish_parse_def cp)
  next
    case True
    then show ?thesis
      by (subst parse_loop.simps) (simp add: Inl initial_pstate_top is_opt_def tok_pat_def cp)
  qed
next
  case (Inr res)
  obtain subns unrec where res: "res = (subns, unrec)" by (cases res)
  note cp = consume_top [OF p, of env toks', unfolded Inr res, simplified]
  show ?thesis
  proof (cases "list_ex is_opt ((name, PA, None) # toks')")
    case False
    then show ?thesis
      by (subst parse_loop.simps)
         (simp add: Inr res initial_pstate_top finish_top2 [where rest = "_ # _", simplified, OF cp])
  next
    case True
    then show ?thesis
      by (subst parse_loop.simps)
         (simp add: Inr res initial_pstate_top is_opt_def tok_pat_def cp finish_top
            parse_loop.simps [of _ _ _ _ _ "[]"])
  qed
qed

lemma top_parse_known:
  assumes p: "map_of (subparsers s) name = Some p"
    and nm: "name = [] \<or> hd name \<noteq> CHR ''-''"
  shows "parse_args env s (name # rest) =
         (case parse_known_args env (\<lambda>x. Inl OtherError) p rest of
            Inl e \<Rightarrow> Inl e
          | Inr (subns, unrec) \<Rightarrow>
              if unrec \<noteq> [] then Inl UsageExit
              else Inr (fold (\<lambda>(k, v). setattr k v) subns [(''cmd'', VStr name)]))"
proof -
  let ?osa = "[(''-h'', 0::nat), (''--help'', 0)]"
  obtain toks' where c: "classify ?osa False rest = Inr toks'" and r: "map tok_str toks' = rest"
    using classify_top by blast
  from nm have po: "parse_optional ?osa False name = Inr None"
    by (auto simp: parse_optional_def)
  from nm have nd: "name \<noteq> ''--''" by auto
  from po nd c have cl: "classify ?osa False (name # rest) = Inr ((name, PA, None) # toks')"
    by simp
  have "parse_known_args env (subcall_of env s) (top_parser s) (name # rest) =
         (case parse_known_args env (\<lambda>x. Inl OtherError) p rest of
            Inl e \<Rightarrow> Inl e
          | Inr (subns, unrec) \<Rightarrow>
              Inr (fold (\<lambda>(k, v). setattr k v) subns [(''cmd'', VStr name)], unrec))"
    unfolding parse_known_args_def [of _ _ "top_parser s"] actions_top osa_top hasneg_top cl
    using top_loop_finish [OF p, of env ?osa toks'] r by simp
  then show ?thesis
    by (simp add: parse_args_def split: sum.splits prod.splits)
qed

section \<open>Registered commands\<close>

lemma add_function_success:
  assumes "add_function env s f = (None, s1)"
  shows "\<exists>d as p. parse_doc env (fn_doc f) = Inr d \<and> build_args env (params d) = Inr as \<and>
           add_arguments \<lparr>actions = [help_action], defaults = []\<rparr> as = (None, p) \<and>
           fn_name f \<notin> fst ` set (subparsers s) \<and>
           s1 = s\<lparr>subparsers := subparsers s @ [(fn_name f, set_defaults_func p f)]\<rparr>"
  using assms
  by (auto simp: add_function_def add_command_def Let_def
      split: sum.splits prod.splits option.splits if_splits)

lemma map_of_append_fresh:
  "k \<notin> fst ` set xs \<Longrightarrow> map_of (xs @ [(k, v)]) k = Some v"
  by (induction xs) auto

lemma map_of_append_old:
  "map_of xs k = Some v \<Longrightarrow> map_of (xs @ ys) k = Some v"
  by (induction xs) auto

lemma add_command_keeps:
  "map_of (subparsers s) k = Some p \<Longrightarrow> map_of (subparsers (snd (add_command s spec))) k = Some p"
  by (auto simp: add_command_def Let_def map_of_append_old split: prod.splits option.splits)

lemma add_function_keeps:
  "map_of (subparsers s) k = Some p \<Longrightarrow> map_of (subparsers (snd (add_function env s g))) k = Some p"
  by (auto simp: add_function_def add_command_keeps split: sum.splits)

lemma register_all_keeps:
  "map_of (subparsers s) k = Some p \<Longrightarrow> map_of (subparsers (register_all env s fs)) k = Some p"
  by (induction fs arbitrary: s) (simp_all add: add_function_keeps)

lemma leaf_no_params:
  "parse_known_args env sub \<lparr>actions = [help_action], defaults = [(''func'', VFun f)]\<rparr> []
     = Inr ([(''func'', VFun f)], [])"
  by (simp add: parse_known_args_def parse_loop.simps [of _ _ _ _ _ "[]"] finish_parse_def
      consume_positionals_def initial_pstate_def initial_namespace_def help_action_def
      add_default_def setattr_def)

text \<open>
  Claim C8. A function registered from a comment that documents no parameter, under a
  name that is not empty and does not start with \<^verbatim>\<open>-\<close> (every Python identifier is such a
  name), is selected by the argument vector that holds just its name, in the registry it
  was added to and after any further registrations: the parse succeeds, nothing is
  printed, and \<^verbatim>\<open>execute\<close> calls the function with no keyword argument at all.
\<close>

theorem no_parameters_command:
  assumes "add_function env s f = (None, s1)"
    and "parse_doc env (fn_doc f) = Inr d"
    and "params d = []"
    and "fn_name f \<noteq> []"
    and "hd (fn_name f) \<noteq> CHR ''-''"
  shows "render_then_execute env (register_all env s1 fs) [fn_name f] = ([], Inr (Invoke f []))"
proof -
  let ?p = "\<lparr>actions = [help_action], defaults = [(''func'', VFun f)]\<rparr>"
  let ?s2 = "register_all env s1 fs"
  from add_function_success [OF assms(1)] assms(2,3)
  have "fn_name f \<notin> fst ` set (subparsers s)"
    and "s1 = s\<lparr>subparsers := subparsers s @ [(fn_name f, ?p)]\<rparr>"
    by (auto simp: set_defaults_func_def help_action_def)
  then have "map_of (subparsers s1) (fn_name f) = Some ?p"
    by (simp add: map_of_append_fresh del: map_of_append)
  then have m: "map_of (subparsers ?s2) (fn_name f) = Some ?p"
    by (rule register_all_keeps)
  have "parse_args env ?s2 [fn_name f] = Inr [(''cmd'', VStr (fn_name f)), (''func'', VFun f)]"
    using assms(5) by (simp add: top_parse_known [OF m] leaf_no_params setattr_def)
  then have "render_menu env ?s2 [fn_name f] =
      ([], None, ?s2\<lparr>args := Some [(''cmd'', VStr (fn_name f)), (''func'', VFun f)]\<rparr>)"
    using assms(4) by (simp add: render_menu_def)
  then show ?thesis
    by (simp add: render_then_execute_def execute_def arg_dict_def)
qed

theorem no_parameters_command_witness:
  "add_function demo_env (register_all demo_env init [toggle]) ping
     = (None, register_all demo_env init [toggle, ping])
   \<and> parse_doc demo_env (fn_doc ping) = Inr (mk_doc ''Ping.'' [])
   \<and> params (mk_doc ''Ping.'' []) = []
   \<and> fn_name ping \<noteq> [] \<and> hd (fn_name ping) \<noteq> CHR ''-''
   \<and> render_then_execute demo_env (register_all demo_env init [toggle, ping, tag]) [''ping'']
       = ([], Inr (Invoke ping []))"
proof -
  have a: "add_function demo_env (register_all demo_env init [toggle]) ping
     = (None, register_all demo_env init [toggle, ping])" by code_simp
  have b: "parse_doc demo_env (fn_doc ping) = Inr (mk_doc ''Ping.'' [])"
    by (simp add: demo_env_def demo_parse_def ping_def)
  have c: "params (mk_doc ''Ping.'' []) = []" by (simp add: mk_doc_def)
  have d: "fn_name ping \<noteq> []" "hd (fn_name ping) \<noteq> CHR ''-''" by (simp_all add: ping_def)
  have e: "register_all demo_env (register_all demo_env init [toggle, ping]) [tag]
        = register_all demo_env init [toggle, ping, tag]" by simp
  from no_parameters_command [OF a b c d, of "[tag]"] a b c d e show ?thesis
    by (simp add: ping_def)
qed

end
